theory Spec2Isabelle
  imports Complex_Main "HOL-Library.Multiset" "HOL-Library.Sublist"
begin

section \<open>Calm HN: the story pipeline, the formatters and the colour-vision preference\<close>

text \<open>
  A shallow embedding of the React component (the two variants of \<open>App\<close>) and of the
  startup script \<open>main.tsx\<close>. JavaScript values are modelled as follows.
  \<^item> A number that the code only ever reads as an integer (scores, comment counts,
    epoch seconds) is an \<open>int\<close>; the result of \<open>parseInt\<close> is a \<open>number\<close>, which adds
    \<open>NaN\<close>. Doubles are idealised: no rounding above \<open>2^53\<close>.
  \<^item> A property that may be missing (or \<open>null\<close>) is an \<open>option\<close>; \<open>None\<close> is falsy.
  \<^item> A string is a \<open>string\<close>; the empty string is falsy.
\<close>

subsection \<open>Data model\<close>

datatype number = NaN | Num int

record AlgoliaStory =
  objectID :: string
  title :: "string option"
  url :: "string option"
  points :: "int option"
  author :: string
  created_at_i :: int
  num_comments :: "int option"

text \<open>
  The fields \<open>id\<close> and \<open>by\<close> of the interface \<open>HNStory\<close> carry a prime here (\<open>id\<close> is the
  identity function of HOL and \<open>by\<close> a keyword). The \<open>map\<close> callback copies \<open>title\<close> and
  \<open>points\<close> as they are, so they keep the type they have in \<open>AlgoliaStory\<close>.
\<close>

record HNStory =
  id' :: number
  title :: "string option"
  url :: "string option"
  score :: "int option"
  by' :: string
  time :: int
  descendants :: "int option"

subsection \<open>parseInt\<close>

text \<open>
  \<open>parseInt(string)\<close> with no radix, after ECMA-262: leading white space is skipped, a
  sign is read, a prefix \<open>0x\<close> or \<open>0X\<close> switches to radix 16, and the longest prefix of
  digits of the radix is the value; with no digit the result is \<open>NaN\<close>. A \<open>char\<close> is a
  code unit below 256; the characters of \<open>StrWhiteSpaceChar\<close> in that range are tab, line
  feed, vertical tab, form feed, carriage return, space and no-break space (160).
\<close>

definition isWhiteSpace :: "char \<Rightarrow> bool" where
  "isWhiteSpace c =
     (let n = (of_char c :: nat) in (9 \<le> n \<and> n \<le> 13) \<or> n = 32 \<or> n = 160)"

definition digitValue :: "char \<Rightarrow> nat option" where
  "digitValue c =
     (let n = (of_char c :: nat) in
      if 48 \<le> n \<and> n \<le> 57 then Some (n - 48)
      else if 97 \<le> n \<and> n \<le> 122 then Some (n - 87)
      else if 65 \<le> n \<and> n \<le> 90 then Some (n - 55)
      else None)"

definition isRadixDigit :: "nat \<Rightarrow> char \<Rightarrow> bool" where
  "isRadixDigit R c = (case digitValue c of None \<Rightarrow> False | Some v \<Rightarrow> v < R)"

definition digitsValue :: "nat \<Rightarrow> string \<Rightarrow> nat" where
  "digitsValue R Z =
     foldl (\<lambda>acc c. acc * R + (case digitValue c of None \<Rightarrow> 0 | Some v \<Rightarrow> v)) 0 Z"

definition parseInt :: "string \<Rightarrow> number" where
  "parseInt inputString =
     (let S = dropWhile isWhiteSpace inputString;
          sign = (if take 1 S = ''-'' then - 1 else (1::int));
          S1 = (if take 1 S = ''+'' \<or> take 1 S = ''-'' then drop 1 S else S);
          hex = (take 2 S1 = ''0x'' \<or> take 2 S1 = ''0X'');
          R = (if hex then 16 else 10);
          S2 = (if hex then drop 2 S1 else S1);
          Z = takeWhile (isRadixDigit R) S2
      in if Z = [] then NaN else Num (sign * int (digitsValue R Z)))"

subsection \<open>The story transformer\<close>

text \<open>
  The \<open>filter\<close> callback is \<open>story => story.title && story.points\<close>: both values must be
  truthy, that is a non-empty string and a number other than zero.
\<close>

definition truthy_string :: "string option \<Rightarrow> bool" where
  "truthy_string v = (case v of None \<Rightarrow> False | Some s \<Rightarrow> s \<noteq> [])"

definition truthy_number :: "int option \<Rightarrow> bool" where
  "truthy_number v = (case v of None \<Rightarrow> False | Some n \<Rightarrow> n \<noteq> 0)"

definition has_title_and_points :: "AlgoliaStory \<Rightarrow> bool" where
  "has_title_and_points story =
     (truthy_string (AlgoliaStory.title story) \<and> truthy_number (points story))"

text \<open>The \<open>map\<close> callback: the object literal of lines 50 to 58.\<close>

definition toHNStory :: "AlgoliaStory \<Rightarrow> HNStory" where
  "toHNStory story =
     \<lparr> id' = parseInt (objectID story),
       title = AlgoliaStory.title story,
       url = AlgoliaStory.url story,
       score = points story,
       by' = author story,
       time = created_at_i story,
       descendants = num_comments story \<rparr>"

text \<open>
  The comparator \<open>(a, b) => b.score - a.score\<close>. A subtraction with a missing operand
  is \<open>NaN\<close>; the filter has removed such stories before the sort runs.
\<close>

definition js_minus :: "int option \<Rightarrow> int option \<Rightarrow> number" where
  "js_minus x y = (case (x, y) of (Some a, Some b) \<Rightarrow> Num (a - b) | _ \<Rightarrow> NaN)"

definition compare_score :: "HNStory \<Rightarrow> HNStory \<Rightarrow> number" where
  "compare_score a b = js_minus (score b) (score a)"

text \<open>
  \<open>Array.prototype.sort\<close> with a comparator. ECMA-262 reads a \<open>NaN\<close> from the comparator
  as \<open>+0\<close> and requires the sort to be stable; for a consistent comparator the result
  is then determined, and a stable insertion sort computes it: an element goes in front
  of the first later element that it does not have to follow.
\<close>

definition sortCompare :: "('a \<Rightarrow> 'a \<Rightarrow> number) \<Rightarrow> 'a \<Rightarrow> 'a \<Rightarrow> int" where
  "sortCompare comparefn x y = (case comparefn x y of NaN \<Rightarrow> 0 | Num v \<Rightarrow> v)"

fun sort_insert :: "('a \<Rightarrow> 'a \<Rightarrow> number) \<Rightarrow> 'a \<Rightarrow> 'a list \<Rightarrow> 'a list" where
  "sort_insert comparefn x [] = [x]"
| "sort_insert comparefn x (y # ys) =
     (if sortCompare comparefn x y \<le> 0 then x # y # ys
      else y # sort_insert comparefn x ys)"

definition array_sort :: "('a \<Rightarrow> 'a \<Rightarrow> number) \<Rightarrow> 'a list \<Rightarrow> 'a list" where
  "array_sort comparefn xs = foldr (sort_insert comparefn) xs []"

definition convertStories :: "AlgoliaStory list \<Rightarrow> HNStory list" where
  "convertStories algoliaStories =
     array_sort compare_score (map toHNStory (filter has_title_and_points algoliaStories))"

subsection \<open>The fetch flow and the view state\<close>

text \<open>
  What the environment can do to \<open>fetchTopStories\<close>: \<open>fetch\<close> rejects with a thrown
  value or resolves with a response; \<open>response.json()\<close> rejects (malformed JSON) or
  resolves with the parsed data. A thrown value is an \<open>Error\<close> with its message, or
  something that is not an \<open>Error\<close>.

  The parsed data is \<open>HitList hits\<close> when it is an object whose \<open>hits\<close> is an array
  of story records. \<open>WrongShape m\<close> stands for a JSON value on which the rest of the
  block throws a \<open>TypeError\<close>: \<open>null\<close>, a value whose \<open>hits\<close> is missing or no array
  (such as \<open>{}\<close>, where \<open>data.hits.filter\<close> reads a property of \<open>undefined\<close>), or a hit
  list with a \<open>null\<close> in it; \<open>m\<close> is the message the engine gives the \<open>TypeError\<close>.
\<close>

datatype thrown = Error string | NotAnError

datatype payload = HitList "AlgoliaStory list" | WrongShape string

record Response =
  ok :: bool
  json :: "thrown + payload"

record AppState =
  stories :: "HNStory list"
  loading :: bool
  error :: "string option"

text \<open>The body of the \<open>try\<close> block, from \<open>await fetch\<close> on: \<open>Inl\<close> is a throw.\<close>

definition try_block :: "thrown + Response \<Rightarrow> thrown + HNStory list" where
  "try_block fetched =
     (case fetched of
        Inl err \<Rightarrow> Inl err
      | Inr response \<Rightarrow>
          if \<not> ok response then Inl (Error ''Failed to fetch stories'')
          else (case json response of
                  Inl err \<Rightarrow> Inl err
                | Inr data \<Rightarrow>
                    (case data of
                       WrongShape m \<Rightarrow> Inl (Error m)
                     | HitList algoliaStories \<Rightarrow> Inr (convertStories algoliaStories))))"

text \<open>\<open>err instanceof Error ? err.message : 'Something went wrong'\<close>\<close>

definition error_message :: "thrown \<Rightarrow> string" where
  "error_message err = (case err of Error m \<Rightarrow> m | NotAnError \<Rightarrow> ''Something went wrong'')"

definition fetchTopStories :: "thrown + Response \<Rightarrow> AppState \<Rightarrow> AppState" where
  "fetchTopStories fetched st =
     (let st1 = st\<lparr>loading := True, error := None\<rparr>;
          st2 = (case try_block fetched of
                   Inr convertedStories \<Rightarrow> st1\<lparr>stories := convertedStories\<rparr>
                 | Inl err \<Rightarrow> st1\<lparr>error := Some (error_message err)\<rparr>)
      in st2\<lparr>loading := False\<rparr>)"

text \<open>The state the component starts in (the three \<open>useState\<close> calls).\<close>

definition initial_state :: AppState where
  "initial_state = \<lparr>stories = [], loading = True, error = None\<rparr>"

subsection \<open>formatTime\<close>

text \<open>
  The template literal \<open>${hours}\<close> prints a whole number in decimal (the numbers that
  reach it are below \<open>10^21\<close>, where JavaScript switches to exponent notation).
\<close>

fun nat_toString :: "nat \<Rightarrow> string" where
  "nat_toString n =
     (if n < 10 then [''0123456789'' ! n]
      else nat_toString (n div 10) @ [''0123456789'' ! (n mod 10)])"

declare nat_toString.simps [simp del]

definition toString :: "int \<Rightarrow> string" where
  "toString n = (if n < 0 then ''-'' @ nat_toString (nat (- n)) else nat_toString (nat n))"

text \<open>
  \<open>date_now\<close> is the value of \<open>Date.now()\<close>, in milliseconds; \<open>timestamp\<close> is in seconds
  and need not be whole. The arithmetic is exact (\<open>real\<close>).
\<close>

definition formatTime :: "int \<Rightarrow> real \<Rightarrow> string" where
  "formatTime date_now timestamp =
     (let now = real_of_int date_now / 1000;
          diff = now - timestamp;
          hours = \<lfloor>diff / 3600\<rfloor>
      in if hours < 1 then ''just now''
         else if hours = 1 then ''1 hour ago''
         else if hours < 24 then toString hours @ '' hours ago''
         else (let days = \<lfloor>real_of_int hours / 24\<rfloor>
               in if days = 1 then ''1 day ago''
                  else toString days @ '' days ago''))"

subsection \<open>getDomain\<close>

text \<open>
  \<open>String.prototype.replace\<close> with a string pattern replaces the first occurrence of
  the pattern, wherever it is, and leaves the rest of the string as it is.
\<close>

fun replace :: "string \<Rightarrow> string \<Rightarrow> string \<Rightarrow> string" where
  "replace searchValue replaceValue [] = (if searchValue = [] then replaceValue else [])"
| "replace searchValue replaceValue (c # cs) =
     (if prefix searchValue (c # cs) then replaceValue @ drop (length searchValue) (c # cs)
      else c # replace searchValue replaceValue cs)"

text \<open>
  \<open>new URL(url).hostname\<close> is the platform's URL parser, not code of the repository:
  it is the parameter \<open>url_hostname\<close>, which gives \<open>None\<close> where the constructor throws.
  The argument \<open>url\<close> of the source is \<open>story_url\<close> here (\<open>url\<close> is a field above);
  \<open>!url\<close> holds for a missing and for an empty string.
\<close>

definition getDomain :: "(string \<Rightarrow> string option) \<Rightarrow> string option \<Rightarrow> string option" where
  "getDomain url_hostname story_url =
     (case story_url of
        None \<Rightarrow> None
      | Some u \<Rightarrow>
          if u = [] then None
          else (case url_hostname u of
                  None \<Rightarrow> None
                | Some hostname \<Rightarrow> Some (replace ''www.'' [] hostname)))"

text \<open>
  The hostnames the URL parser gives for the URLs of the examples below; a string with
  no scheme, such as \<open>not a url\<close>, is rejected. Only these entries are used.
\<close>

definition example_hostname :: "string \<Rightarrow> string option" where
  "example_hostname =
     map_of [(''https://www.example.com/x'', ''www.example.com''),
             (''https://a.www.example.com/'', ''a.www.example.com''),
             (''https://awww.example.com/'', ''awww.example.com''),
             (''https://news.ycombinator.com/item?id=1'', ''news.ycombinator.com'')]"

subsection \<open>The colour-vision preference\<close>

text \<open>
  The global state: the attributes of \<open>document.body\<close> and the entries of
  \<open>localStorage\<close>, both maps from names to strings, and the condition of the storage.
  The calls on \<open>localStorage\<close> can throw, and no call in the repository is guarded:
  \<^item> \<open>Available\<close>: every call succeeds;
  \<^item> \<open>Full\<close>: there is no room for a write (quota used up, or a quota of zero), so
    \<open>setItem\<close> throws a \<open>QuotaExceededError\<close>; reading and removing succeed;
  \<^item> \<open>Blocked\<close>: the page may not use storage, and every access to \<open>localStorage\<close>
    throws a \<open>SecurityError\<close>.
  A throw is \<open>Inl\<close>. \<open>setAttribute\<close> and \<open>removeAttribute\<close> on \<open>document.body\<close> with the
  name \<open>data-cvd\<close> do not throw.
\<close>

datatype storage_status = Available | Full | Blocked

datatype dom_exception = QuotaExceededError | SecurityError

record Browser =
  body_attributes :: "string \<rightharpoonup> string"
  localStorage :: "string \<rightharpoonup> string"
  storage :: storage_status

definition setAttribute :: "string \<Rightarrow> string \<Rightarrow> Browser \<Rightarrow> Browser" where
  "setAttribute name v b = b\<lparr>body_attributes := (body_attributes b)(name \<mapsto> v)\<rparr>"

definition removeAttribute :: "string \<Rightarrow> Browser \<Rightarrow> Browser" where
  "removeAttribute name b = b\<lparr>body_attributes := (body_attributes b)(name := None)\<rparr>"

definition setItem :: "string \<Rightarrow> string \<Rightarrow> Browser \<Rightarrow> dom_exception + Browser" where
  "setItem key v b =
     (case storage b of
        Blocked \<Rightarrow> Inl SecurityError
      | Full \<Rightarrow> Inl QuotaExceededError
      | Available \<Rightarrow> Inr (b\<lparr>localStorage := (localStorage b)(key \<mapsto> v)\<rparr>))"

definition removeItem :: "string \<Rightarrow> Browser \<Rightarrow> dom_exception + Browser" where
  "removeItem key b =
     (case storage b of
        Blocked \<Rightarrow> Inl SecurityError
      | Full \<Rightarrow> Inr (b\<lparr>localStorage := (localStorage b)(key := None)\<rparr>)
      | Available \<Rightarrow> Inr (b\<lparr>localStorage := (localStorage b)(key := None)\<rparr>))"

definition getItem :: "string \<Rightarrow> Browser \<Rightarrow> dom_exception + string option" where
  "getItem key b =
     (case storage b of
        Blocked \<Rightarrow> Inl SecurityError
      | Full \<Rightarrow> Inr (localStorage b key)
      | Available \<Rightarrow> Inr (localStorage b key))"

definition known_mode :: "string option \<Rightarrow> bool" where
  "known_mode v = (v = Some ''protanopia'' \<or> v = Some ''deuteranopia'')"

text \<open>
  \<open>main.tsx\<close>, lines 8 to 18; \<open>cvdParam\<close> is \<open>params.get('cvd')\<close>, \<open>None\<close> for \<open>null\<close>.
  The result is the exception that ended the module, if one was thrown, and the state
  of the browser at the end (at the throw, if there was one). \<open>apply_stored\<close> is the
  \<open>else\<close> branch, lines 14 to 17.
\<close>

definition apply_stored :: "Browser \<Rightarrow> dom_exception option \<times> Browser" where
  "apply_stored b =
     (case getItem ''cvd-preference'' b of
        Inl e \<Rightarrow> (Some e, b)
      | Inr None \<Rightarrow> (None, b)
      | Inr (Some stored) \<Rightarrow>
          if known_mode (Some stored) then (None, setAttribute ''data-cvd'' stored b)
          else (None, b))"

definition startup :: "string option \<Rightarrow> Browser \<Rightarrow> dom_exception option \<times> Browser" where
  "startup cvdParam b =
     (case cvdParam of
        None \<Rightarrow> apply_stored b
      | Some p \<Rightarrow>
          if known_mode (Some p)
          then (let b1 = setAttribute ''data-cvd'' p b
                in case setItem ''cvd-preference'' p b1 of
                     Inl e \<Rightarrow> (Some e, b1)
                   | Inr b2 \<Rightarrow> (None, b2))
          else apply_stored b)"

text \<open>
  \<open>handleCvdChange\<close> of the variant with the selector. The state is the component's
  \<open>cvdMode\<close> and the browser state; the result adds the exception, if one was thrown.
  \<open>setCvdMode(mode)\<close> comes first, so it has run in every case. \<open>if (mode)\<close> takes a
  non-empty string; \<open>clear_preference\<close> is the \<open>else\<close> branch, lines 81 and 82.
\<close>

definition clear_preference :: "Browser \<Rightarrow> dom_exception option \<times> Browser" where
  "clear_preference b =
     (let b1 = removeAttribute ''data-cvd'' b
      in case removeItem ''cvd-preference'' b1 of
           Inl e \<Rightarrow> (Some e, b1)
         | Inr b2 \<Rightarrow> (None, b2))"

definition set_preference :: "string \<Rightarrow> Browser \<Rightarrow> dom_exception option \<times> Browser" where
  "set_preference m b =
     (let b1 = setAttribute ''data-cvd'' m b
      in case setItem ''cvd-preference'' m b1 of
           Inl e \<Rightarrow> (Some e, b1)
         | Inr b2 \<Rightarrow> (None, b2))"

definition handleCvdChange ::
  "string option \<Rightarrow> string option \<times> Browser
   \<Rightarrow> dom_exception option \<times> string option \<times> Browser" where
  "handleCvdChange mode st =
     (case st of (cvdMode, b) \<Rightarrow>
        (case (case mode of
                 Some m \<Rightarrow> if m \<noteq> [] then set_preference m b else clear_preference b
               | None \<Rightarrow> clear_preference b)
         of (e, b') \<Rightarrow> (e, mode, b')))"

subsection \<open>Auxiliary definitions for the proofs and the examples\<close>

text \<open>
  The key the comparator sorts by, on stories that have a score: ascending by the
  negated score is descending by the score.
\<close>

definition score_key :: "HNStory \<Rightarrow> int" where
  "score_key d = (case score d of None \<Rightarrow> 0 | Some p \<Rightarrow> - p)"

text \<open>Sample records of the search API, used to run the definitions.\<close>

definition story_a :: AlgoliaStory where
  "story_a = \<lparr> objectID = ''101'', title = Some ''Alpha'',
       url = Some ''https://www.example.com/x'', points = Some 5, author = ''ann'',
       created_at_i = 1700000000, num_comments = Some 3 \<rparr>"

definition story_b :: AlgoliaStory where
  "story_b = \<lparr> objectID = ''102'', title = Some ''Beta'', url = None,
       points = Some 50, author = ''bob'', created_at_i = 1700000100, num_comments = None \<rparr>"

definition story_c :: AlgoliaStory where
  "story_c = \<lparr> objectID = ''103'', title = Some ''Gamma'', url = None,
       points = Some 5, author = ''cy'', created_at_i = 1700000200, num_comments = Some 0 \<rparr>"

definition story_untitled :: AlgoliaStory where
  "story_untitled = \<lparr> objectID = ''104'', title = Some [], url = None,
       points = Some 20, author = ''dee'', created_at_i = 1700000300, num_comments = None \<rparr>"

definition story_zero :: AlgoliaStory where
  "story_zero = \<lparr> objectID = ''105'', title = Some ''Zero'', url = None,
       points = Some 0, author = ''eve'', created_at_i = 1700000400, num_comments = None \<rparr>"

definition story_negative :: AlgoliaStory where
  "story_negative = \<lparr> objectID = ''106'', title = Some ''Flagged'', url = None,
       points = Some (- 3), author = ''fay'', created_at_i = 1700000500, num_comments = None \<rparr>"

definition story_abc :: AlgoliaStory where
  "story_abc = \<lparr> objectID = ''abc'', title = Some ''No id'', url = None,
       points = Some 7, author = ''gus'', created_at_i = 1700000600, num_comments = None \<rparr>"

section \<open>Properties of the story transformer\<close>

lemmas story_defs = story_a_def story_b_def story_c_def story_untitled_def story_zero_def
  story_negative_def story_abc_def

lemmas parseInt_defs = parseInt_def isWhiteSpace_def isRadixDigit_def digitValue_def
  digitsValue_def

lemmas transformer_defs = convertStories_def array_sort_def toHNStory_def
  has_title_and_points_def truthy_string_def truthy_number_def sortCompare_def
  compare_score_def js_minus_def

subsection \<open>The sort is the stable sort by descending score\<close>

lemma sort_insert_insort_key:
  "\<forall>y\<in>set ys. (sortCompare comparefn x y \<le> 0) = (f x \<le> f y) \<Longrightarrow>
   sort_insert comparefn x ys = insort_key f x ys"
  by (induction ys) simp_all

lemma array_sort_sort_key:
  "\<forall>x\<in>set xs. \<forall>y\<in>set xs. (sortCompare comparefn x y \<le> 0) = (f x \<le> f y) \<Longrightarrow>
   array_sort comparefn xs = sort_key f xs"
proof (induction xs)
  case Nil
  show ?case by (simp add: array_sort_def)
next
  case (Cons x xs)
  have tail: "array_sort comparefn xs = sort_key f xs"
    using Cons by simp
  have "\<forall>y\<in>set (sort_key f xs). (sortCompare comparefn x y \<le> 0) = (f x \<le> f y)"
    using Cons.prems by simp
  then have "sort_insert comparefn x (sort_key f xs) = insort_key f x (sort_key f xs)"
    by (rule sort_insert_insort_key)
  with tail show ?case
    by (simp add: array_sort_def)
qed

lemma compare_score_key:
  "score a = Some p \<Longrightarrow> score b = Some q \<Longrightarrow>
   (sortCompare compare_score a b \<le> 0) = (score_key a \<le> score_key b)"
  by (simp add: sortCompare_def compare_score_def js_minus_def score_key_def)

lemma kept_score:
  "d \<in> set (map toHNStory (filter has_title_and_points hits)) \<Longrightarrow>
   \<exists>p. score d = Some p \<and> p \<noteq> 0"
  by (auto simp: toHNStory_def has_title_and_points_def truthy_number_def split: option.splits)

lemma convertStories_sort_key:
  "convertStories hits = sort_key score_key (map toHNStory (filter has_title_and_points hits))"
  unfolding convertStories_def
proof (rule array_sort_sort_key, intro ballI)
  fix a b
  assume "a \<in> set (map toHNStory (filter has_title_and_points hits))"
    and "b \<in> set (map toHNStory (filter has_title_and_points hits))"
  then obtain p q where "score a = Some p" and "score b = Some q"
    using kept_score by blast
  then show "(sortCompare compare_score a b \<le> 0) = (score_key a \<le> score_key b)"
    by (rule compare_score_key)
qed

lemma has_title_and_points_iff:
  "has_title_and_points s =
   ((\<exists>t. AlgoliaStory.title s = Some t \<and> t \<noteq> []) \<and> (\<exists>p. points s = Some p \<and> p \<noteq> 0))"
  by (simp add: has_title_and_points_def truthy_string_def truthy_number_def
      split: option.splits)

lemma score_eq_key:
  "\<exists>q. score d = Some q \<Longrightarrow> (score d = Some p) = (score_key d = - p)"
  by (auto simp: score_key_def)

subsection \<open>Filtering and field mapping\<close>

text \<open>
  C1. As a multiset, the output of the transformer is the image of the kept records:
  a record is kept exactly when its title is present and non-empty and its points are
  present and not zero, and each kept record gives one output record whose title, url,
  score, by, time and descendants are the record's title, url, points, author,
  created_at_i and num_comments, and whose id is \<open>parseInt\<close> of the record's objectID.
\<close>

theorem transformer_keeps_and_copies:
  "mset (convertStories hits) =
     {# \<lparr> id' = parseInt (objectID s), title = AlgoliaStory.title s,
           url = AlgoliaStory.url s, score = points s, by' = author s,
           time = created_at_i s, descendants = num_comments s \<rparr>.
        s \<in># filter_mset
                (\<lambda>s. (\<exists>t. AlgoliaStory.title s = Some t \<and> t \<noteq> []) \<and>
                     (\<exists>p. points s = Some p \<and> p \<noteq> 0))
                (mset hits) #}"
proof -
  have "mset (convertStories hits)
        = image_mset toHNStory (filter_mset has_title_and_points (mset hits))"
    by (simp add: convertStories_sort_key)
  also have "has_title_and_points =
      (\<lambda>s. (\<exists>t. AlgoliaStory.title s = Some t \<and> t \<noteq> []) \<and> (\<exists>p. points s = Some p \<and> p \<noteq> 0))"
    by (rule ext) (rule has_title_and_points_iff)
  finally show ?thesis
    by (simp add: toHNStory_def[abs_def])
qed

text \<open>
  The theorem on four records: the one with an empty title and the one with zero
  points are left out, the other two are carried over.
\<close>

theorem transformer_keeps_and_copies_witness:
  "mset (convertStories [story_a, story_untitled, story_b, story_zero]) =
     {# \<lparr> id' = Num 101, title = Some ''Alpha'', url = Some ''https://www.example.com/x'',
           score = Some 5, by' = ''ann'', time = 1700000000, descendants = Some 3 \<rparr>,
        \<lparr> id' = Num 102, title = Some ''Beta'', url = None,
           score = Some 50, by' = ''bob'', time = 1700000100, descendants = None \<rparr> #}"
  using transformer_keeps_and_copies [of "[story_a, story_untitled, story_b, story_zero]"]
  by (simp add: story_defs parseInt_defs)

text \<open>
  C2. The output is sorted by score, non-increasing (every story has a score, and a
  later story never has a higher one), and the sort is stable: for every score \<open>k\<close>,
  the output stories with that score are, in the same order, the kept records of the
  hit list with that score.
\<close>

theorem output_sorted_and_stable:
  "sorted_wrt (\<lambda>a b. \<exists>p q. score a = Some p \<and> score b = Some q \<and> q \<le> p)
     (convertStories hits)
   \<and> filter (\<lambda>d. score d = k) (convertStories hits)
       = filter (\<lambda>d. score d = k) (map toHNStory (filter has_title_and_points hits))"
proof
  let ?xs = "map toHNStory (filter has_title_and_points hits)"
  have out: "convertStories hits = sort_key score_key ?xs"
    by (rule convertStories_sort_key)
  have some: "\<exists>p. score d = Some p" if "d \<in> set ?xs" for d
    using kept_score[OF that] by blast
  have "sorted_wrt (\<lambda>a b. score_key a \<le> score_key b) (sort_key score_key ?xs)"
    using sorted_sort_key[of score_key ?xs] by (simp add: sorted_map)
  then have "sorted_wrt (\<lambda>a b. \<exists>p q. score a = Some p \<and> score b = Some q \<and> q \<le> p)
               (sort_key score_key ?xs)"
  proof (rule sorted_wrt_mono_rel[rotated])
    fix a b
    assume "a \<in> set (sort_key score_key ?xs)" and "b \<in> set (sort_key score_key ?xs)"
      and le: "score_key a \<le> score_key b"
    then obtain p q where "score a = Some p" and "score b = Some q"
      using some by fastforce
    with le show "\<exists>p q. score a = Some p \<and> score b = Some q \<and> q \<le> p"
      by (simp add: score_key_def)
  qed
  with out show "sorted_wrt (\<lambda>a b. \<exists>p q. score a = Some p \<and> score b = Some q \<and> q \<le> p)
                   (convertStories hits)"
    by simp
  show "filter (\<lambda>d. score d = k) (convertStories hits) = filter (\<lambda>d. score d = k) ?xs"
  proof (cases k)
    case None
    have "filter (\<lambda>d. score d = None) (sort_key score_key ?xs) = []"
      using some by (fastforce simp: filter_empty_conv)
    moreover have "filter (\<lambda>d. score d = None) ?xs = []"
      using some by (fastforce simp: filter_empty_conv)
    ultimately show ?thesis
      using None out by simp
  next
    case (Some p)
    have "filter (\<lambda>d. score d = Some p) (sort_key score_key ?xs)
          = filter (\<lambda>d. score_key d = - p) (sort_key score_key ?xs)"
      by (rule filter_cong[OF refl]) (use some in \<open>simp add: score_eq_key\<close>)
    also have "\<dots> = filter (\<lambda>d. score_key d = - p) ?xs"
      by (rule sort_key_stable)
    also have "\<dots> = filter (\<lambda>d. score d = Some p) ?xs"
      by (rule filter_cong[OF refl]) (use some in \<open>simp add: score_eq_key\<close>)
    finally show ?thesis
      using Some out by simp
  qed
qed

text \<open>
  The theorem on the hit list with scores 5, 20 (no title), 50, 0 and 5: the output has
  the scores 50, 5, 5, and the two stories with score 5 keep the order of the hit list
  (ids 101, then 103).
\<close>

theorem output_sorted_and_stable_witness:
  "map score (convertStories [story_a, story_untitled, story_b, story_zero, story_c])
     = [Some 50, Some 5, Some 5]
   \<and> map id' (filter (\<lambda>d. score d = Some 5)
        (convertStories [story_a, story_untitled, story_b, story_zero, story_c]))
     = [Num 101, Num 103]"
  using output_sorted_and_stable
    [of "[story_a, story_untitled, story_b, story_zero, story_c]" "Some 5"]
  by (simp add: story_defs transformer_defs parseInt_defs)

subsection \<open>Scores of the output\<close>

text \<open>
  C3, as the claim states it, fails: a record with a title and the score \<open>-3\<close> is not
  dropped, and the output holds a story whose score is not positive.
\<close>

theorem negative_score_counterexample:
  "points story_negative = Some (- 3)
   \<and> map score (convertStories [story_negative]) = [Some (- 3)]"
  by (simp add: story_defs transformer_defs)

text \<open>
  C3, amended. Every story of the output has a score other than zero; a record with a
  non-empty title and a negative score is kept.
\<close>

theorem output_scores_nonzero:
  "(\<forall>d\<in>set (convertStories hits). \<exists>p. score d = Some p \<and> p \<noteq> 0)
   \<and> (\<forall>s\<in>set hits.
        (\<exists>t. AlgoliaStory.title s = Some t \<and> t \<noteq> []) \<and> (\<exists>p. points s = Some p \<and> p < 0)
        \<longrightarrow> toHNStory s \<in> set (convertStories hits))"
proof (intro conjI ballI impI)
  fix d
  assume "d \<in> set (convertStories hits)"
  then have "d \<in> set (map toHNStory (filter has_title_and_points hits))"
    by (simp add: convertStories_sort_key)
  then show "\<exists>p. score d = Some p \<and> p \<noteq> 0"
    by (rule kept_score)
next
  fix s
  assume "s \<in> set hits"
    and "(\<exists>t. AlgoliaStory.title s = Some t \<and> t \<noteq> []) \<and> (\<exists>p. points s = Some p \<and> p < 0)"
  then have "s \<in> set (filter has_title_and_points hits)"
    by (auto simp: has_title_and_points_iff)
  then show "toHNStory s \<in> set (convertStories hits)"
    by (simp add: convertStories_sort_key)
qed

text \<open>
  The amended theorem on a hit list with a zero score and a negative one: the output
  has the story with score \<open>-3\<close>, and that score is not zero.
\<close>

theorem output_scores_nonzero_witness:
  "toHNStory story_negative \<in> set (convertStories [story_zero, story_negative])
   \<and> (\<exists>p. score (toHNStory story_negative) = Some p \<and> p \<noteq> 0)"
proof -
  have neg: "story_negative \<in> set [story_zero, story_negative]"
    by simp
  have cond: "(\<exists>t. AlgoliaStory.title story_negative = Some t \<and> t \<noteq> [])
              \<and> (\<exists>p. points story_negative = Some p \<and> p < 0)"
    by (simp add: story_negative_def)
  have kept: "toHNStory story_negative \<in> set (convertStories [story_zero, story_negative])"
    using output_scores_nonzero [of "[story_zero, story_negative]"] neg cond by blast
  then have "\<exists>p. score (toHNStory story_negative) = Some p \<and> p \<noteq> 0"
    using output_scores_nonzero [of "[story_zero, story_negative]"] by blast
  with kept show ?thesis
    by simp
qed

subsection \<open>Identifiers that are no numbers\<close>

lemma parseInt_no_digit:
  assumes "s = [] \<or> (\<exists>c rest. s = c # rest \<and> \<not> isWhiteSpace c \<and> c \<noteq> CHR ''+''
             \<and> c \<noteq> CHR ''-'' \<and> \<not> isRadixDigit 10 c)"
  shows "parseInt s = NaN"
  using assms
proof
  assume "s = []"
  then show ?thesis by (simp add: parseInt_def)
next
  assume "\<exists>c rest. s = c # rest \<and> \<not> isWhiteSpace c \<and> c \<noteq> CHR ''+''
             \<and> c \<noteq> CHR ''-'' \<and> \<not> isRadixDigit 10 c"
  then obtain c rest where s: "s = c # rest" and ws: "\<not> isWhiteSpace c"
    and sign: "c \<noteq> CHR ''+''" "c \<noteq> CHR ''-''" and d: "\<not> isRadixDigit 10 c"
    by blast
  have "c \<noteq> CHR ''0''"
    using d by (auto simp: isRadixDigit_def digitValue_def)
  then show ?thesis
    using s ws sign d by (simp add: parseInt_def Let_def)
qed

text \<open>
  C9. The transformer does not look at the identifier: a record with a non-empty title
  and non-zero points, whose objectID is empty or starts with a character that is no
  white space, no sign and no decimal digit, is emitted, and its id is \<open>NaN\<close>.
\<close>

theorem unparsable_id_is_NaN:
  assumes "has_title_and_points s"
    and "objectID s = [] \<or> (\<exists>c rest. objectID s = c # rest \<and> \<not> isWhiteSpace c
           \<and> c \<noteq> CHR ''+'' \<and> c \<noteq> CHR ''-'' \<and> \<not> isRadixDigit 10 c)"
  shows "convertStories [s] = [toHNStory s] \<and> id' (toHNStory s) = NaN"
proof
  show "convertStories [s] = [toHNStory s]"
    using assms(1) by (simp add: convertStories_def array_sort_def)
  show "id' (toHNStory s) = NaN"
    using assms(2) by (simp add: toHNStory_def parseInt_no_digit)
qed

text \<open>The record with the objectID \<open>abc\<close>, a title and 7 points is such an input.\<close>

theorem unparsable_id_is_NaN_witness:
  "has_title_and_points story_abc
   \<and> objectID story_abc = ''abc''
   \<and> map id' (convertStories [story_abc]) = [NaN]
   \<and> map title (convertStories [story_abc]) = [Some ''No id'']"
proof -
  have kept: "has_title_and_points story_abc"
    by (simp add: story_abc_def has_title_and_points_def truthy_string_def truthy_number_def)
  have oid: "objectID story_abc = ''abc''"
    by (simp add: story_abc_def)
  have "objectID story_abc = [] \<or> (\<exists>c rest. objectID story_abc = c # rest \<and> \<not> isWhiteSpace c
           \<and> c \<noteq> CHR ''+'' \<and> c \<noteq> CHR ''-'' \<and> \<not> isRadixDigit 10 c)"
    by (simp add: story_abc_def isWhiteSpace_def isRadixDigit_def digitValue_def)
  from unparsable_id_is_NaN [OF kept this]
  have "convertStories [story_abc] = [toHNStory story_abc]"
    and "id' (toHNStory story_abc) = NaN"
    by simp_all
  then show ?thesis
    using kept oid by (simp add: toHNStory_def story_abc_def)
qed

section \<open>Properties of formatTime\<close>

lemma hours_less_iff:
  "(\<lfloor>e / 3600\<rfloor> < k) = (e < 3600 * real_of_int k)" for e :: real
  by (simp add: floor_less_iff field_simps)

lemma days_of_hours: "\<lfloor>real_of_int h / 24\<rfloor> = h div 24"
  using floor_divide_of_int_eq[of h 24, where ?'a = real] by simp

lemma branch_bounds:
  "(if h < 1 then A else if h = 1 then B else if h < 24 then C
    else if h div 24 = 1 then D else E)
   = (if h < 1 then A else if h < 2 then B else if h < 24 then C
      else if h < 48 then D else E)" for h :: int
proof -
  have "(h div 24 = 1) = (h < 48)" if "24 \<le> h"
    using that by presburger
  moreover have "(h = 1) = (h < 2)" if "\<not> h < 1"
    using that by linarith
  ultimately show ?thesis
    by (cases "h < 1"; cases "h < 24") auto
qed

lemma formatTime_cases:
  "formatTime date_now timestamp =
     (let h = \<lfloor>(real_of_int date_now / 1000 - timestamp) / 3600\<rfloor>
      in if h < 1 then ''just now''
         else if h < 2 then ''1 hour ago''
         else if h < 24 then toString h @ '' hours ago''
         else if h < 48 then ''1 day ago''
         else toString (h div 24) @ '' days ago'')"
  unfolding formatTime_def Let_def days_of_hours by (rule branch_bounds)

text \<open>The digits that \<open>nat_toString\<close> prints read back, in radix 10, as the number.\<close>

lemma digitValue_decimal: "d < 10 \<Longrightarrow> digitValue (''0123456789'' ! d) = Some d"
proof -
  assume "d < 10"
  then have "d \<in> {0, 1, 2, 3, 4, 5, 6, 7, 8, 9}"
    by auto
  then show ?thesis
    by (auto simp: digitValue_def)
qed

lemma digitsValue_snoc:
  "digitsValue R (Z @ [c])
   = digitsValue R Z * R + (case digitValue c of None \<Rightarrow> 0 | Some v \<Rightarrow> v)"
  by (simp add: digitsValue_def)

lemma nat_toString_decimal: "digitsValue 10 (nat_toString n) = n"
proof (induction n rule: nat_toString.induct)
  case (1 n)
  show ?case
  proof (cases "n < 10")
    case True
    then show ?thesis
      by (simp add: nat_toString.simps[of n] digitValue_decimal digitsValue_def)
  next
    case False
    then have "digitsValue 10 (nat_toString (n div 10)) = n div 10"
      using 1 by simp
    with False show ?thesis
      by (simp add: nat_toString.simps[of n] digitsValue_snoc digitValue_decimal)
  qed
qed

lemma toString_2: "toString 2 = ''2''"
  by (simp add: toString_def nat_toString.simps)

text \<open>
  C5, as the claim states it, fails between 25 and 47 hours: the claim gives
  \<open>N days ago\<close> with \<open>N = 1\<close> beyond 24 hours, the code \<open>1 day ago\<close>. Here the
  timestamp is 25 hours (90000 seconds) before now.
\<close>

theorem formatTime_25_hours_counterexample:
  "\<lfloor>(real_of_int 1700000000000 / 1000 - (1700000000 - 90000)) / 3600\<rfloor> = 25
   \<and> formatTime 1700000000000 (1700000000 - 90000) = ''1 day ago''
   \<and> formatTime 1700000000000 (1700000000 - 90000) \<noteq> toString (25 div 24) @ '' days ago''"
  by (simp add: formatTime_cases toString_def nat_toString.simps)

text \<open>
  C5, amended. Let \<open>e\<close> be the elapsed time in seconds, not negative. Then \<open>formatTime\<close>
  gives \<open>just now\<close> for \<open>e\<close> under one hour, \<open>1 hour ago\<close> from one hour up to two,
  \<open>N hours ago\<close> with \<open>N\<close> the floor of the elapsed hours from 2 hours up to 24,
  \<open>1 day ago\<close> from 24 hours up to 48, and \<open>N days ago\<close> with \<open>N\<close> the floored hours
  divided by 24 from 48 hours on. The five examples hold for every value of the clock.
\<close>

theorem formatTime_elapsed:
  assumes "timestamp \<le> real_of_int date_now / 1000"
    and "e = real_of_int date_now / 1000 - timestamp"
  shows "(e < 3600 \<longrightarrow> formatTime date_now timestamp = ''just now'')
    \<and> (3600 \<le> e \<and> e < 7200 \<longrightarrow> formatTime date_now timestamp = ''1 hour ago'')
    \<and> (7200 \<le> e \<and> e < 86400 \<longrightarrow>
         formatTime date_now timestamp = toString \<lfloor>e / 3600\<rfloor> @ '' hours ago''
         \<and> 2 \<le> \<lfloor>e / 3600\<rfloor> \<and> \<lfloor>e / 3600\<rfloor> \<le> 23)
    \<and> (86400 \<le> e \<and> e < 172800 \<longrightarrow> formatTime date_now timestamp = ''1 day ago'')
    \<and> (172800 \<le> e \<longrightarrow>
         formatTime date_now timestamp = toString (\<lfloor>e / 3600\<rfloor> div 24) @ '' days ago''
         \<and> 2 \<le> \<lfloor>e / 3600\<rfloor> div 24)
    \<and> formatTime date_now (real_of_int date_now / 1000) = ''just now''
    \<and> formatTime date_now (real_of_int date_now / 1000 - 3600) = ''1 hour ago''
    \<and> formatTime date_now (real_of_int date_now / 1000 - 7200) = ''2 hours ago''
    \<and> formatTime date_now (real_of_int date_now / 1000 - 86400) = ''1 day ago''
    \<and> formatTime date_now (real_of_int date_now / 1000 - 172800) = ''2 days ago''"
proof -
  define h where "h = \<lfloor>e / 3600\<rfloor>"
  have ft: "formatTime date_now timestamp =
      (if h < 1 then ''just now'' else if h < 2 then ''1 hour ago''
       else if h < 24 then toString h @ '' hours ago''
       else if h < 48 then ''1 day ago'' else toString (h div 24) @ '' days ago'')"
    by (simp add: formatTime_cases h_def assms(2) Let_def)
  have less: "(h < k) = (e < 3600 * real_of_int k)" for k
    unfolding h_def by (rule hours_less_iff)
  have c1: "e < 3600 \<longrightarrow> formatTime date_now timestamp = ''just now''"
    using less[of 1] by (simp add: ft)
  have c2: "3600 \<le> e \<and> e < 7200 \<longrightarrow> formatTime date_now timestamp = ''1 hour ago''"
    using less[of 1] less[of 2] by (simp add: ft)
  have c3: "7200 \<le> e \<and> e < 86400 \<longrightarrow>
      formatTime date_now timestamp = toString \<lfloor>e / 3600\<rfloor> @ '' hours ago''
      \<and> 2 \<le> \<lfloor>e / 3600\<rfloor> \<and> \<lfloor>e / 3600\<rfloor> \<le> 23"
    using less[of 1] less[of 2] less[of 24] by (auto simp: ft h_def)
  have c4: "86400 \<le> e \<and> e < 172800 \<longrightarrow> formatTime date_now timestamp = ''1 day ago''"
    using less[of 1] less[of 2] less[of 24] less[of 48] by (simp add: ft)
  have c5: "172800 \<le> e \<longrightarrow>
      formatTime date_now timestamp = toString (\<lfloor>e / 3600\<rfloor> div 24) @ '' days ago''
      \<and> 2 \<le> \<lfloor>e / 3600\<rfloor> div 24"
  proof
    assume "172800 \<le> e"
    then have "\<not> h < 48"
      using less[of 48] by simp
    then have "\<not> h < 1" "\<not> h < 2" "\<not> h < 24" "2 \<le> h div 24"
      by simp_all
    with \<open>\<not> h < 48\<close> show "formatTime date_now timestamp
        = toString (\<lfloor>e / 3600\<rfloor> div 24) @ '' days ago'' \<and> 2 \<le> \<lfloor>e / 3600\<rfloor> div 24"
      by (simp add: ft flip: h_def)
  qed
  have e0: "formatTime date_now (real_of_int date_now / 1000) = ''just now''"
    by (simp add: formatTime_cases)
  have e1: "formatTime date_now (real_of_int date_now / 1000 - 3600) = ''1 hour ago''"
    by (simp add: formatTime_cases)
  have e2: "formatTime date_now (real_of_int date_now / 1000 - 7200) = ''2 hours ago''"
    by (simp add: formatTime_cases toString_2)
  have e3: "formatTime date_now (real_of_int date_now / 1000 - 86400) = ''1 day ago''"
    by (simp add: formatTime_cases)
  have e4: "formatTime date_now (real_of_int date_now / 1000 - 172800) = ''2 days ago''"
    by (simp add: formatTime_cases toString_2)
  from c1 c2 c3 c4 c5 e0 e1 e2 e3 e4 show ?thesis
    by blast
qed

text \<open>
  The amended theorem at two timestamps, 5 hours and 50 hours before a clock of
  1700000000000 milliseconds.
\<close>

theorem formatTime_elapsed_witness:
  "formatTime 1700000000000 (1700000000 - 18000) = ''5 hours ago''
   \<and> formatTime 1700000000000 (1700000000 - 180000) = ''2 days ago''"
proof -
  have five: "toString \<lfloor>(18000::real) / 3600\<rfloor> = ''5''"
    by (simp add: toString_def nat_toString.simps)
  have two: "toString (\<lfloor>(180000::real) / 3600\<rfloor> div 24) = ''2''"
    by (simp add: toString_def nat_toString.simps)
  have "formatTime 1700000000000 (1700000000 - 18000) = ''5 hours ago''"
    using formatTime_elapsed [of "1700000000 - 18000" 1700000000000 18000] five
    by simp
  moreover have "formatTime 1700000000000 (1700000000 - 180000) = ''2 days ago''"
    using formatTime_elapsed [of "1700000000 - 180000" 1700000000000 180000] two
    by simp
  ultimately show ?thesis
    by simp
qed

text \<open>
  C10. For a timestamp in the future the floored hours are negative, and \<open>formatTime\<close>
  gives \<open>just now\<close>.
\<close>

theorem formatTime_future:
  assumes "real_of_int date_now / 1000 < timestamp"
  shows "formatTime date_now timestamp = ''just now''"
proof -
  have "(real_of_int date_now / 1000 - timestamp) / 3600 < 0"
    using assms by simp
  then have "\<lfloor>(real_of_int date_now / 1000 - timestamp) / 3600\<rfloor> < 1"
    by (simp add: floor_less_iff)
  then show ?thesis
    by (simp add: formatTime_def Let_def)
qed

text \<open>A timestamp one day after a clock of 1700000000123 milliseconds.\<close>

theorem formatTime_future_witness:
  "real_of_int 1700000000123 / 1000 < 1700086400
   \<and> formatTime 1700000000123 1700086400 = ''just now''"
proof -
  have future: "real_of_int 1700000000123 / 1000 < 1700086400"
    by simp
  from formatTime_future [OF future] future show ?thesis
    by simp
qed

section \<open>Properties of getDomain\<close>

lemma replace_at_prefix:
  "pat \<noteq> [] \<Longrightarrow> replace pat rep (pat @ post) = rep @ post"
  by (cases pat) simp_all

lemma replace_no_occurrence:
  "\<not> sublist pat s \<Longrightarrow> replace pat rep s = s"
proof (induction s)
  case Nil
  then show ?case by (cases pat) simp_all
next
  case (Cons c cs)
  have np: "\<not> prefix pat (c # cs)"
    using Cons.prems by (simp add: sublist_Cons_right)
  have "\<not> sublist pat cs"
    using Cons.prems by (simp add: sublist_Cons_right)
  then have "replace pat rep cs = cs"
    by (rule Cons.IH)
  with np show ?case
    by (simp only: replace.simps if_False)
qed

lemma replace_first_occurrence:
  assumes "pat \<noteq> []" and "\<not> sublist pat (pre @ butlast pat)"
  shows "replace pat rep (pre @ pat @ post) = pre @ rep @ post"
  using assms(2)
proof (induction pre)
  case Nil
  show ?case using assms(1) by (simp add: replace_at_prefix)
next
  case (Cons a pre)
  have np: "\<not> prefix pat (a # (pre @ pat @ post))"
  proof
    assume whole: "prefix pat (a # (pre @ pat @ post))"
    have "prefix (butlast pat) (pat @ post)"
      by (rule prefix_prefix) (rule prefixeq_butlast)
    then have "prefix (a # (pre @ butlast pat)) (a # (pre @ pat @ post))"
      by simp
    moreover have "length pat \<le> length (a # (pre @ butlast pat))"
      using assms(1) by simp
    ultimately have "prefix pat (a # (pre @ butlast pat))"
      using whole prefix_length_prefix by blast
    then show False
      using Cons.prems by (simp add: sublist_Cons_right)
  qed
  have "\<not> sublist pat (pre @ butlast pat)"
    using Cons.prems by (simp add: sublist_Cons_right)
  then have "replace pat rep (pre @ pat @ post) = pre @ rep @ post"
    by (rule Cons.IH)
  with np show ?case
    by (simp only: replace.simps append_Cons if_False)
qed

text \<open>
  C4. The claim does not hold of the code, and the defect is the code's: the call
  \<open>replace('www.', '')\<close> is not anchored at the start of the hostname. The hostnames
  \<open>a.www.example.com\<close> and \<open>awww.example.com\<close> do not start with \<open>www.\<close>, so the claim
  keeps them whole; the code removes the inner \<open>www.\<close> and gives \<open>a.example.com\<close> and
  \<open>aexample.com\<close>, which are other domains.
\<close>

theorem getDomain_inner_www_removed:
  "example_hostname ''https://a.www.example.com/'' = Some ''a.www.example.com''
   \<and> \<not> prefix ''www.'' ''a.www.example.com''
   \<and> getDomain example_hostname (Some ''https://a.www.example.com/'') = Some ''a.example.com''
   \<and> example_hostname ''https://awww.example.com/'' = Some ''awww.example.com''
   \<and> \<not> prefix ''www.'' ''awww.example.com''
   \<and> getDomain example_hostname (Some ''https://awww.example.com/'') = Some ''aexample.com''"
  by (simp add: example_hostname_def getDomain_def)

text \<open>
  What the code computes, for every URL parser. \<open>getDomain\<close> gives \<open>null\<close> exactly when
  the URL is missing, empty or rejected by the parser. Otherwise it gives the hostname
  without its first occurrence of \<open>www.\<close>, and the hostname itself when \<open>www.\<close> does
  not occur in it; so it agrees with the claim on every hostname in which \<open>www.\<close>
  occurs at the start or not at all. For a parser that reads the hostname
  \<open>www.example.com\<close> from \<open>https://www.example.com/x\<close> and rejects \<open>not a url\<close>, the three
  examples of the claim hold.
\<close>

lemma getDomain_first_www:
  "(getDomain url_hostname story_url = None)
     = (case story_url of None \<Rightarrow> True | Some u \<Rightarrow> u = [] \<or> url_hostname u = None)
   \<and> (u \<noteq> [] \<and> url_hostname u = Some h \<longrightarrow>
        (\<not> sublist ''www.'' h \<longrightarrow> getDomain url_hostname (Some u) = Some h)
        \<and> (\<forall>pre post. h = pre @ ''www.'' @ post \<and> \<not> sublist ''www.'' (pre @ ''www'')
              \<longrightarrow> getDomain url_hostname (Some u) = Some (pre @ post)))
   \<and> (url_hostname ''https://www.example.com/x'' = Some ''www.example.com''
        \<longrightarrow> getDomain url_hostname (Some ''https://www.example.com/x'') = Some ''example.com'')
   \<and> (url_hostname ''not a url'' = None
        \<longrightarrow> getDomain url_hostname (Some ''not a url'') = None)
   \<and> getDomain url_hostname None = None"
proof (intro conjI impI allI)
  show "(getDomain url_hostname story_url = None)
     = (case story_url of None \<Rightarrow> True | Some u \<Rightarrow> u = [] \<or> url_hostname u = None)"
    by (simp add: getDomain_def split: option.splits)
next
  assume "u \<noteq> [] \<and> url_hostname u = Some h" and "\<not> sublist ''www.'' h"
  then show "getDomain url_hostname (Some u) = Some h"
    by (simp add: getDomain_def replace_no_occurrence)
next
  fix pre post
  assume u: "u \<noteq> [] \<and> url_hostname u = Some h"
    and h: "h = pre @ ''www.'' @ post \<and> \<not> sublist ''www.'' (pre @ ''www'')"
  have "\<not> sublist ''www.'' (pre @ butlast ''www.'')"
    using h by simp
  then have "replace ''www.'' [] (pre @ ''www.'' @ post) = pre @ [] @ post"
    by (intro replace_first_occurrence) simp_all
  with u h show "getDomain url_hostname (Some u) = Some (pre @ post)"
    by (simp add: getDomain_def)
next
  assume "url_hostname ''https://www.example.com/x'' = Some ''www.example.com''"
  then show "getDomain url_hostname (Some ''https://www.example.com/x'') = Some ''example.com''"
    by (simp add: getDomain_def)
next
  assume "url_hostname ''not a url'' = None"
  then show "getDomain url_hostname (Some ''not a url'') = None"
    by (simp add: getDomain_def)
next
  show "getDomain url_hostname None = None"
    by (simp add: getDomain_def)
qed

text \<open>
  The same with the hostnames of the examples: a leading \<open>www.\<close> is removed, a hostname
  with no \<open>www.\<close> is returned as it is, and \<open>not a url\<close> gives \<open>null\<close>.
\<close>

lemma getDomain_first_www_examples:
  "getDomain example_hostname (Some ''https://www.example.com/x'') = Some ''example.com''
   \<and> getDomain example_hostname (Some ''https://news.ycombinator.com/item?id=1'')
       = Some ''news.ycombinator.com''
   \<and> getDomain example_hostname (Some ''not a url'') = None"
proof -
  have www: "example_hostname ''https://www.example.com/x'' = Some ''www.example.com''"
    by (simp add: example_hostname_def)
  have hn: "example_hostname ''https://news.ycombinator.com/item?id=1''
      = Some ''news.ycombinator.com''"
    by (simp add: example_hostname_def)
  have none: "example_hostname ''not a url'' = None"
    by (simp add: example_hostname_def)
  have no_www: "\<not> sublist ''www.'' ''news.ycombinator.com''"
    by (simp add: sublist_Cons_right)
  have lead: "''www.example.com'' = [] @ ''www.'' @ ''example.com''
      \<and> \<not> sublist ''www.'' ([] @ ''www'')"
    by (simp add: sublist_Cons_right)
  have "getDomain example_hostname (Some ''https://www.example.com/x'')
      = Some ([] @ ''example.com'')"
    using getDomain_first_www
      [of example_hostname None "''https://www.example.com/x''" "''www.example.com''"]
      www lead by blast
  moreover have "getDomain example_hostname (Some ''https://news.ycombinator.com/item?id=1'')
      = Some ''news.ycombinator.com''"
    using getDomain_first_www
      [of example_hostname None "''https://news.ycombinator.com/item?id=1''"
        "''news.ycombinator.com''"]
      hn no_www by blast
  moreover have "getDomain example_hostname (Some ''not a url'') = None"
    using getDomain_first_www [of example_hostname None] none by blast
  ultimately show ?thesis
    by simp
qed

section \<open>Properties of the fetch flow\<close>

lemma fetchTopStories_error:
  "error (fetchTopStories fetched st) =
     (case try_block fetched of Inl err \<Rightarrow> Some (error_message err) | Inr _ \<Rightarrow> None)"
  by (simp add: fetchTopStories_def Let_def split: sum.splits)

lemma fetchTopStories_stories:
  "stories (fetchTopStories fetched st) =
     (case try_block fetched of Inl err \<Rightarrow> stories st | Inr converted \<Rightarrow> converted)"
  by (simp add: fetchTopStories_def Let_def split: sum.splits)

text \<open>
  C6, as the claim states it, fails: the response is successful and its body is valid
  JSON, \<open>{}\<close>, but \<open>data.hits\<close> is undefined, the call of \<open>filter\<close> throws, and the
  flow ends in the error state with the message of that \<open>TypeError\<close>.
\<close>

theorem fetch_no_hits_counterexample:
  "error (fetchTopStories
            (Inr \<lparr>ok = True, json = Inr (WrongShape ''data.hits is undefined'')\<rparr>)
            initial_state)
     = Some ''data.hits is undefined''"
  by (simp add: fetchTopStories_error try_block_def error_message_def)

text \<open>
  C6, amended. The fetch flow ends in the error state if and only if the request
  fails, the response status is not successful, parsing the JSON fails, or the parsed
  JSON has not the shape of a hit list, so that the code of the transformer throws.
  The error state then holds the message of the failure (\<open>Failed to fetch stories\<close>
  for an unsuccessful status), or \<open>Something went wrong\<close> when the thrown value is not
  an \<open>Error\<close>, and the stories are left as they were. On a successful response whose
  JSON holds a hit list the error state is not entered and the stories are the
  transformer's output. In every case loading ends.
\<close>

theorem fetch_error_state:
  "(error (fetchTopStories fetched st) \<noteq> None)
     = ((\<exists>err. fetched = Inl err)
        \<or> (\<exists>r. fetched = Inr r
              \<and> (\<not> ok r \<or> (\<exists>err. json r = Inl err) \<or> (\<exists>m. json r = Inr (WrongShape m)))))
   \<and> (fetched = Inl (Error msg) \<longrightarrow> error (fetchTopStories fetched st) = Some msg)
   \<and> (fetched = Inl NotAnError
        \<longrightarrow> error (fetchTopStories fetched st) = Some ''Something went wrong'')
   \<and> (fetched = Inr r \<and> \<not> ok r
        \<longrightarrow> error (fetchTopStories fetched st) = Some ''Failed to fetch stories'')
   \<and> (fetched = Inr r \<and> ok r \<and> json r = Inl (Error msg)
        \<longrightarrow> error (fetchTopStories fetched st) = Some msg)
   \<and> (fetched = Inr r \<and> ok r \<and> json r = Inl NotAnError
        \<longrightarrow> error (fetchTopStories fetched st) = Some ''Something went wrong'')
   \<and> (fetched = Inr r \<and> ok r \<and> json r = Inr (WrongShape msg)
        \<longrightarrow> error (fetchTopStories fetched st) = Some msg)
   \<and> (fetched = Inr r \<and> ok r \<and> json r = Inr (HitList hits)
        \<longrightarrow> error (fetchTopStories fetched st) = None
            \<and> stories (fetchTopStories fetched st) = convertStories hits)
   \<and> (error (fetchTopStories fetched st) \<noteq> None
        \<longrightarrow> stories (fetchTopStories fetched st) = stories st)
   \<and> loading (fetchTopStories fetched st) = False"
proof -
  have iff: "(error (fetchTopStories fetched st) \<noteq> None)
     = ((\<exists>err. fetched = Inl err)
        \<or> (\<exists>r. fetched = Inr r
              \<and> (\<not> ok r \<or> (\<exists>err. json r = Inl err) \<or> (\<exists>m. json r = Inr (WrongShape m)))))"
  proof (cases fetched)
    case (Inl err)
    then show ?thesis
      by (simp add: fetchTopStories_error try_block_def)
  next
    case (Inr r)
    show ?thesis
    proof (cases "ok r")
      case False
      with Inr show ?thesis
        by (simp add: fetchTopStories_error try_block_def)
    next
      case True
      show ?thesis
      proof (cases "json r")
        case (Inl err)
        with Inr True show ?thesis
          by (simp add: fetchTopStories_error try_block_def)
      next
        case body: (Inr data)
        with Inr True show ?thesis
          by (cases data) (simp_all add: fetchTopStories_error try_block_def)
      qed
    qed
  qed
  have thrown: "fetched = Inl (Error msg) \<longrightarrow> error (fetchTopStories fetched st) = Some msg"
    "fetched = Inl NotAnError
       \<longrightarrow> error (fetchTopStories fetched st) = Some ''Something went wrong''"
    by (simp_all add: fetchTopStories_error try_block_def error_message_def)
  have status: "fetched = Inr r \<and> \<not> ok r
       \<longrightarrow> error (fetchTopStories fetched st) = Some ''Failed to fetch stories''"
    by (simp add: fetchTopStories_error try_block_def error_message_def)
  have parse: "fetched = Inr r \<and> ok r \<and> json r = Inl (Error msg)
       \<longrightarrow> error (fetchTopStories fetched st) = Some msg"
    "fetched = Inr r \<and> ok r \<and> json r = Inl NotAnError
       \<longrightarrow> error (fetchTopStories fetched st) = Some ''Something went wrong''"
    "fetched = Inr r \<and> ok r \<and> json r = Inr (WrongShape msg)
       \<longrightarrow> error (fetchTopStories fetched st) = Some msg"
    by (simp_all add: fetchTopStories_error try_block_def error_message_def)
  have good: "fetched = Inr r \<and> ok r \<and> json r = Inr (HitList hits)
       \<longrightarrow> error (fetchTopStories fetched st) = None
           \<and> stories (fetchTopStories fetched st) = convertStories hits"
    by (simp add: fetchTopStories_error fetchTopStories_stories try_block_def)
  have kept: "error (fetchTopStories fetched st) \<noteq> None
       \<longrightarrow> stories (fetchTopStories fetched st) = stories st"
    by (simp add: fetchTopStories_error fetchTopStories_stories split: sum.splits)
  have ended: "loading (fetchTopStories fetched st) = False"
    by (simp add: fetchTopStories_def Let_def split: sum.splits)
  from iff thrown status parse good kept ended show ?thesis
    by blast
qed

text \<open>
  The amended theorem on two runs from the initial state: a response with status 500
  ends in the error state with the message \<open>Failed to fetch stories\<close> and no stories;
  a successful response with two hits ends with no error and the two stories, the one
  with 50 points first.
\<close>

theorem fetch_error_state_witness:
  "error (fetchTopStories (Inr \<lparr>ok = False, json = Inr (HitList [story_a, story_b])\<rparr>)
       initial_state) = Some ''Failed to fetch stories''
   \<and> stories (fetchTopStories (Inr \<lparr>ok = False, json = Inr (HitList [story_a, story_b])\<rparr>)
       initial_state) = []
   \<and> error (fetchTopStories (Inr \<lparr>ok = True, json = Inr (HitList [story_a, story_b])\<rparr>)
       initial_state) = None
   \<and> map score (stories (fetchTopStories
       (Inr \<lparr>ok = True, json = Inr (HitList [story_a, story_b])\<rparr>) initial_state))
     = [Some 50, Some 5]"
proof -
  let ?bad = "\<lparr>ok = False, json = Inr (HitList [story_a, story_b])\<rparr>"
  let ?good = "\<lparr>ok = True, json = Inr (HitList [story_a, story_b])\<rparr>"
  have bad: "error (fetchTopStories (Inr ?bad) initial_state) = Some ''Failed to fetch stories''"
    using fetch_error_state [of "Inr ?bad" initial_state _ ?bad] by simp
  then have "stories (fetchTopStories (Inr ?bad) initial_state) = stories initial_state"
    using fetch_error_state [of "Inr ?bad" initial_state] by simp
  then have bad_stories: "stories (fetchTopStories (Inr ?bad) initial_state) = []"
    by (simp add: initial_state_def)
  have good: "error (fetchTopStories (Inr ?good) initial_state) = None
      \<and> stories (fetchTopStories (Inr ?good) initial_state) = convertStories [story_a, story_b]"
    using fetch_error_state [of "Inr ?good" initial_state _ ?good "[story_a, story_b]"]
    by simp
  have "map score (convertStories [story_a, story_b]) = [Some 50, Some 5]"
    by (simp add: story_defs transformer_defs)
  with bad bad_stories good show ?thesis
    by simp
qed

section \<open>Properties of the colour-vision preference\<close>

lemmas browser_defs = setAttribute_def removeAttribute_def setItem_def removeItem_def
  getItem_def

lemmas preference_defs = startup_def apply_stored_def set_preference_def
  clear_preference_def handleCvdChange_def known_mode_def

text \<open>
  C7, as the claim states it, fails where the storage throws. With \<open>?cvd=protanopia\<close>
  and a full storage the attribute is set, \<open>setItem\<close> throws, and nothing is stored.
  With \<open>?cvd=tritanopia\<close> and a blocked storage, reading the stored value throws: the
  unknown parameter is not ignored without an error.
\<close>

theorem startup_storage_throws_counterexample:
  "startup (Some ''protanopia'')
       \<lparr>body_attributes = Map.empty, localStorage = Map.empty, storage = Full\<rparr>
     = (Some QuotaExceededError,
        \<lparr>body_attributes = [''data-cvd'' \<mapsto> ''protanopia''], localStorage = Map.empty,
         storage = Full\<rparr>)
   \<and> startup (Some ''tritanopia'')
       \<lparr>body_attributes = Map.empty, localStorage = Map.empty, storage = Blocked\<rparr>
     = (Some SecurityError,
        \<lparr>body_attributes = Map.empty, localStorage = Map.empty, storage = Blocked\<rparr>)"
  by (simp add: preference_defs browser_defs)

text \<open>
  C7, amended. With an available storage the startup code throws nothing. Whenever it
  throws nothing: a \<open>cvd\<close> parameter that is one of the two known modes is set as the
  \<open>data-cvd\<close> attribute and stored under \<open>cvd-preference\<close>, whatever was stored before;
  with any other parameter, or none, a stored value that is a known mode is set as the
  attribute and the storage is left as it is; if the stored value is no known mode
  either, or missing, nothing changes.
\<close>

theorem startup_preference:
  "(storage b = Available \<longrightarrow> fst (startup cvdParam b) = None)
   \<and> (fst (startup cvdParam b) = None \<longrightarrow>
        (cvdParam \<in> {Some ''protanopia'', Some ''deuteranopia''} \<longrightarrow>
           body_attributes (snd (startup cvdParam b)) ''data-cvd'' = cvdParam
           \<and> localStorage (snd (startup cvdParam b)) ''cvd-preference'' = cvdParam)
        \<and> (cvdParam \<notin> {Some ''protanopia'', Some ''deuteranopia''}
             \<and> localStorage b ''cvd-preference'' \<in> {Some ''protanopia'', Some ''deuteranopia''}
             \<longrightarrow>
           body_attributes (snd (startup cvdParam b)) ''data-cvd''
             = localStorage b ''cvd-preference''
           \<and> localStorage (snd (startup cvdParam b)) = localStorage b)
        \<and> (cvdParam \<notin> {Some ''protanopia'', Some ''deuteranopia''}
             \<and> localStorage b ''cvd-preference'' \<notin> {Some ''protanopia'', Some ''deuteranopia''}
             \<longrightarrow>
           snd (startup cvdParam b) = b))"
proof -
  have known: "known_mode v = (v \<in> {Some ''protanopia'', Some ''deuteranopia''})" for v
    by (auto simp: known_mode_def)
  have avail: "storage b = Available \<longrightarrow> fst (startup cvdParam b) = None"
    by (cases cvdParam; cases "localStorage b ''cvd-preference''")
      (simp_all add: startup_def apply_stored_def browser_defs Let_def)
  have param: "fst (startup cvdParam b) = None \<longrightarrow>
      cvdParam \<in> {Some ''protanopia'', Some ''deuteranopia''} \<longrightarrow>
      body_attributes (snd (startup cvdParam b)) ''data-cvd'' = cvdParam
      \<and> localStorage (snd (startup cvdParam b)) ''cvd-preference'' = cvdParam"
    unfolding known[symmetric]
    by (cases cvdParam; cases "storage b")
      (simp_all add: startup_def browser_defs Let_def known_mode_def)
  have stored: "fst (startup cvdParam b) = None \<longrightarrow>
      cvdParam \<notin> {Some ''protanopia'', Some ''deuteranopia''}
      \<and> localStorage b ''cvd-preference'' \<in> {Some ''protanopia'', Some ''deuteranopia''} \<longrightarrow>
      body_attributes (snd (startup cvdParam b)) ''data-cvd'' = localStorage b ''cvd-preference''
      \<and> localStorage (snd (startup cvdParam b)) = localStorage b"
    unfolding known[symmetric]
    by (cases cvdParam; cases "storage b"; cases "localStorage b ''cvd-preference''")
      (simp_all add: startup_def apply_stored_def browser_defs known_mode_def)
  have neither: "fst (startup cvdParam b) = None \<longrightarrow>
      cvdParam \<notin> {Some ''protanopia'', Some ''deuteranopia''}
      \<and> localStorage b ''cvd-preference'' \<notin> {Some ''protanopia'', Some ''deuteranopia''} \<longrightarrow>
      snd (startup cvdParam b) = b"
    unfolding known[symmetric]
    by (cases cvdParam; cases "storage b"; cases "localStorage b ''cvd-preference''")
      (simp_all add: startup_def apply_stored_def browser_defs known_mode_def)
  from avail param stored neither show ?thesis
    by blast
qed

text \<open>
  The amended theorem on three starts with an available storage. With
  \<open>?cvd=protanopia\<close> and \<open>deuteranopia\<close> stored, both the attribute and the stored value
  become \<open>protanopia\<close>. With no parameter and \<open>deuteranopia\<close> stored, the attribute
  becomes \<open>deuteranopia\<close>. With \<open>?cvd=tritanopia\<close> and \<open>high-contrast\<close> stored, nothing
  changes.
\<close>

theorem startup_preference_witness:
  "body_attributes (snd (startup (Some ''protanopia'')
       \<lparr>body_attributes = Map.empty,
        localStorage = [''cvd-preference'' \<mapsto> ''deuteranopia''],
        storage = Available\<rparr>)) ''data-cvd''
     = Some ''protanopia''
   \<and> localStorage (snd (startup (Some ''protanopia'')
       \<lparr>body_attributes = Map.empty,
        localStorage = [''cvd-preference'' \<mapsto> ''deuteranopia''],
        storage = Available\<rparr>)) ''cvd-preference''
     = Some ''protanopia''
   \<and> body_attributes (snd (startup None
       \<lparr>body_attributes = Map.empty,
        localStorage = [''cvd-preference'' \<mapsto> ''deuteranopia''],
        storage = Available\<rparr>)) ''data-cvd''
     = Some ''deuteranopia''
   \<and> snd (startup (Some ''tritanopia'')
       \<lparr>body_attributes = Map.empty,
        localStorage = [''cvd-preference'' \<mapsto> ''high-contrast''],
        storage = Available\<rparr>)
     = \<lparr>body_attributes = Map.empty,
        localStorage = [''cvd-preference'' \<mapsto> ''high-contrast''],
        storage = Available\<rparr>"
proof -
  let ?b = "\<lparr>body_attributes = Map.empty,
             localStorage = [''cvd-preference'' \<mapsto> ''deuteranopia''],
             storage = Available\<rparr>"
  let ?c = "\<lparr>body_attributes = Map.empty,
             localStorage = [''cvd-preference'' \<mapsto> ''high-contrast''],
             storage = Available\<rparr>"
  have "body_attributes (snd (startup (Some ''protanopia'') ?b)) ''data-cvd''
          = Some ''protanopia''
      \<and> localStorage (snd (startup (Some ''protanopia'') ?b)) ''cvd-preference''
          = Some ''protanopia''"
    using startup_preference [of ?b "Some ''protanopia''"] by simp
  moreover have "body_attributes (snd (startup None ?b)) ''data-cvd'' = Some ''deuteranopia''"
    using startup_preference [of ?b None] by simp
  moreover have "snd (startup (Some ''tritanopia'') ?c) = ?c"
    using startup_preference [of ?c "Some ''tritanopia''"] by simp
  ultimately show ?thesis
    by simp
qed

text \<open>
  C8, as the claim states it, fails where the storage throws. From a state where
  \<open>protanopia\<close> is set and stored and the storage is full, choosing \<open>deuteranopia\<close> sets
  the attribute, then \<open>setItem\<close> throws: the attribute is \<open>deuteranopia\<close> and the stored
  value still \<open>protanopia\<close>.
\<close>

theorem handleCvdChange_storage_full_counterexample:
  "handleCvdChange (Some ''deuteranopia'')
       (Some ''protanopia'',
        \<lparr>body_attributes = [''data-cvd'' \<mapsto> ''protanopia''],
         localStorage = [''cvd-preference'' \<mapsto> ''protanopia''], storage = Full\<rparr>)
     = (Some QuotaExceededError, Some ''deuteranopia'',
        \<lparr>body_attributes = [''data-cvd'' \<mapsto> ''deuteranopia''],
         localStorage = [''cvd-preference'' \<mapsto> ''protanopia''], storage = Full\<rparr>)
   \<and> [''data-cvd'' \<mapsto> ''deuteranopia''] ''data-cvd''
       \<noteq> [''cvd-preference'' \<mapsto> ''protanopia''] ''cvd-preference''"
  by (simp add: preference_defs browser_defs)

text \<open>
  C8, amended. With an available storage \<open>handleCvdChange\<close> throws nothing. Whenever it
  throws nothing, the \<open>data-cvd\<close> attribute and the stored \<open>cvd-preference\<close> agree
  afterwards: for a missing (or empty) mode both are removed, for any other mode both
  are that mode; the component's \<open>cvdMode\<close> is the mode passed in.
\<close>

theorem handleCvdChange_in_step:
  "(storage (snd st) = Available \<longrightarrow> fst (handleCvdChange mode st) = None)
   \<and> (fst (handleCvdChange mode st) = None \<longrightarrow>
        body_attributes (snd (snd (handleCvdChange mode st))) ''data-cvd''
          = localStorage (snd (snd (handleCvdChange mode st))) ''cvd-preference''
        \<and> (mode = None \<or> mode = Some [] \<longrightarrow>
             body_attributes (snd (snd (handleCvdChange mode st))) ''data-cvd'' = None
             \<and> localStorage (snd (snd (handleCvdChange mode st))) ''cvd-preference'' = None)
        \<and> (mode \<noteq> None \<and> mode \<noteq> Some [] \<longrightarrow>
             body_attributes (snd (snd (handleCvdChange mode st))) ''data-cvd'' = mode
             \<and> localStorage (snd (snd (handleCvdChange mode st))) ''cvd-preference'' = mode)
        \<and> fst (snd (handleCvdChange mode st)) = mode)"
proof (cases st)
  case (Pair cvdMode b)
  then show ?thesis
    by (cases mode; cases "storage b")
      (simp_all add: handleCvdChange_def set_preference_def clear_preference_def
        browser_defs Let_def)
qed

text \<open>
  The amended theorem on two calls from a state where \<open>protanopia\<close> is set and stored
  and the storage is available: choosing \<open>deuteranopia\<close> sets both to it, choosing the
  default removes both.
\<close>

theorem handleCvdChange_in_step_witness:
  "body_attributes (snd (snd (handleCvdChange (Some ''deuteranopia'')
       (Some ''protanopia'',
        \<lparr>body_attributes = [''data-cvd'' \<mapsto> ''protanopia''],
         localStorage = [''cvd-preference'' \<mapsto> ''protanopia''],
         storage = Available\<rparr>)))) ''data-cvd''
     = Some ''deuteranopia''
   \<and> localStorage (snd (snd (handleCvdChange (Some ''deuteranopia'')
       (Some ''protanopia'',
        \<lparr>body_attributes = [''data-cvd'' \<mapsto> ''protanopia''],
         localStorage = [''cvd-preference'' \<mapsto> ''protanopia''],
         storage = Available\<rparr>)))) ''cvd-preference''
     = Some ''deuteranopia''
   \<and> body_attributes (snd (snd (handleCvdChange None
       (Some ''protanopia'',
        \<lparr>body_attributes = [''data-cvd'' \<mapsto> ''protanopia''],
         localStorage = [''cvd-preference'' \<mapsto> ''protanopia''],
         storage = Available\<rparr>)))) ''data-cvd''
     = None
   \<and> localStorage (snd (snd (handleCvdChange None
       (Some ''protanopia'',
        \<lparr>body_attributes = [''data-cvd'' \<mapsto> ''protanopia''],
         localStorage = [''cvd-preference'' \<mapsto> ''protanopia''],
         storage = Available\<rparr>)))) ''cvd-preference''
     = None"
proof -
  let ?st = "(Some ''protanopia'',
        \<lparr>body_attributes = [''data-cvd'' \<mapsto> ''protanopia''],
         localStorage = [''cvd-preference'' \<mapsto> ''protanopia''],
         storage = Available\<rparr>)"
  show ?thesis
    using handleCvdChange_in_step [of ?st "Some ''deuteranopia''"]
      handleCvdChange_in_step [of ?st None]
    by simp
qed

end
